theory Spec2Isabelle
  imports Complex_Main "HOL-Library.AList"
begin

section \<open>Decimal prices and their presentation\<close>

text \<open>
  \<^verbatim>\<open>Advertisement.price\<close> is declared
  \<^verbatim>\<open>DecimalField(max_digits=20, decimal_places=2)\<close>, so its values are Python
  \<^verbatim>\<open>Decimal\<close>s. A finite \<^verbatim>\<open>Decimal\<close> with a non-positive exponent is a signed
  coefficient and a number of decimal places: \<open>Decimal c k\<close> stands for \<open>c / 10 ^ k\<close>.
  A value read from the price column is \<open>Decimal c 2\<close> with at most 20 digits in \<open>c\<close>;
  \<^verbatim>\<open>Decimal('999')\<close> is \<open>Decimal 999 0\<close>. Negative zero, infinities and NaN are not
  represented.
\<close>

datatype decimal = Decimal (coeff: int) (places: nat)

definition dec_value :: "decimal \<Rightarrow> rat" where
  "dec_value d = of_int (coeff d) / 10 ^ places d"

text \<open>The comparison \<^verbatim>\<open>self.price >= n\<close> of a \<^verbatim>\<open>Decimal\<close> with an integer is exact.\<close>

definition dec_ge :: "decimal \<Rightarrow> int \<Rightarrow> bool" where
  "dec_ge d n = (n * 10 ^ places d \<le> coeff d)"

text \<open>
  \<^verbatim>\<open>self.price / 1_000_000\<close> and \<^verbatim>\<open>self.price / 1_000\<close> divide by a power of ten.
  Under the default arithmetic context (28 significant digits, which Django leaves
  untouched) the quotient of a coefficient of at most 28 digits by a power of ten is
  exact: the decimal point moves. \<open>in_context\<close> says that the coefficient fits the
  context; every value of the price column does, having at most 20 digits.
\<close>

definition in_context :: "decimal \<Rightarrow> bool" where
  "in_context d = (\<bar>coeff d\<bar> < 10 ^ 28)"

definition dec_div_pow10 :: "decimal \<Rightarrow> nat \<Rightarrow> decimal" where
  "dec_div_pow10 d n = Decimal (coeff d) (places d + n)"

text \<open>
  The format specification \<^verbatim>\<open>:.2f\<close> rescales a \<^verbatim>\<open>Decimal\<close> to two places with the
  rounding of the context, which is round-half-even, and prints sign, integer digits,
  a point and two digits.
\<close>

definition round_half_even :: "int \<Rightarrow> int \<Rightarrow> int" where
  "round_half_even n d =
     (let q = n div d; r = n mod d
      in if 2 * r < d then q
         else if d < 2 * r then q + 1
         else if even q then q else q + 1)"

definition rescale2 :: "decimal \<Rightarrow> int" where
  "rescale2 d =
     (if places d \<le> 2 then coeff d * 10 ^ (2 - places d)
      else round_half_even (coeff d) (10 ^ (places d - 2)))"

definition digit_char :: "nat \<Rightarrow> char" where
  "digit_char n = ''0123456789'' ! (n mod 10)"

function show_nat :: "nat \<Rightarrow> string" where
  "show_nat n = (if n < 10 then [digit_char n] else show_nat (n div 10) @ [digit_char n])"
  by pat_completeness auto
termination
  by (relation "measure (\<lambda>n. n)") auto

declare show_nat.simps [simp del]

definition format_2f :: "decimal \<Rightarrow> string" where
  "format_2f d =
     (let h = nat \<bar>rescale2 d\<bar>
      in (if coeff d < 0 then ''-'' else [])
         @ show_nat (h div 100) @ ''.'' @ [digit_char (h div 10), digit_char h])"

text \<open>
  The three suffixes of the source are Cyrillic; a \<open>string\<close> holds the UTF-8 bytes of
  the Python text. \<open>suffix_mln\<close> is the abbreviation of "million" (U+043C U+043B
  U+043D), \<open>suffix_tys\<close> that of "thousand" (U+0442 U+044B U+0441) and \<open>suffix_rub\<close>
  that of the currency unit with its full stop (U+0440 U+0443 U+0431 U+002E), each
  after one space.
\<close>

definition suffix_mln :: string where
  "suffix_mln = [CHR '' '', CHR 0xD0, CHR 0xBC, CHR 0xD0, CHR 0xBB, CHR 0xD0, CHR 0xBD]"

definition suffix_tys :: string where
  "suffix_tys = [CHR '' '', CHR 0xD1, CHR 0x82, CHR 0xD1, CHR 0x8B, CHR 0xD1, CHR 0x81]"

definition suffix_rub :: string where
  "suffix_rub = [CHR '' '', CHR 0xD1, CHR 0x80, CHR 0xD1, CHR 0x83, CHR 0xD0, CHR 0xB1, CHR ''.'']"

text \<open>\<^verbatim>\<open>Advertisement.formatted_price\<close>, as a function of \<^verbatim>\<open>self.price\<close>.\<close>

definition formatted_price :: "decimal \<Rightarrow> string" where
  "formatted_price price =
     (if dec_ge price 1000000 then format_2f (dec_div_pow10 price 6) @ suffix_mln
      else if dec_ge price 1000 then format_2f (dec_div_pow10 price 3) @ suffix_tys
      else format_2f price @ suffix_rub)"

subsection \<open>Reading a rendered amount back\<close>

text \<open>
  What the specification calls "two decimal places" is stated with a reader that is
  independent of the printer: \<open>read_2dp\<close> accepts one or more decimal digits, a point
  and exactly two decimal digits, and returns the amount in hundredths.
  \<open>shows_2dp s x\<close> holds when \<open>s\<close> is such a text and the amount it denotes is the
  multiple of one hundredth nearest to \<open>x\<close> (within half a hundredth).
\<close>

definition digit_of :: "char \<Rightarrow> nat option" where
  "digit_of c =
     (let k = (of_char c :: nat) in if 48 \<le> k \<and> k \<le> 57 then Some (k - 48) else None)"

fun read_frac :: "nat \<Rightarrow> string \<Rightarrow> nat option" where
  "read_frac acc [a, b] =
     (case (digit_of a, digit_of b) of
        (Some x, Some y) \<Rightarrow> Some (100 * acc + 10 * x + y)
      | _ \<Rightarrow> None)"
| "read_frac acc _ = None"

fun read_int :: "nat \<Rightarrow> string \<Rightarrow> nat option" where
  "read_int acc [] = None"
| "read_int acc (c # cs) =
     (if c = CHR ''.'' then read_frac acc cs
      else case digit_of c of
             None \<Rightarrow> None
           | Some d \<Rightarrow> read_int (10 * acc + d) cs)"

definition read_2dp :: "string \<Rightarrow> nat option" where
  "read_2dp s = (case s of [] \<Rightarrow> None | c # _ \<Rightarrow> if c = CHR ''.'' then None else read_int 0 s)"

definition shows_2dp :: "string \<Rightarrow> rat \<Rightarrow> bool" where
  "shows_2dp s x =
     (case read_2dp s of
        None \<Rightarrow> False
      | Some h \<Rightarrow> \<bar>of_nat h / 100 - x\<bar> \<le> 1 / 200)"

text \<open>
  \<open>renders out x suffix\<close>: the text \<open>out\<close> ends with \<open>suffix\<close>, and what precedes the
  suffix shows \<open>x\<close> with two decimal places.
\<close>

definition renders :: "string \<Rightarrow> rat \<Rightarrow> string \<Rightarrow> bool" where
  "renders out x suffix =
     (let k = length out - length suffix
      in length suffix \<le> length out \<and> drop k out = suffix \<and> shows_2dp (take k out) x)"

section \<open>The schema declared in models.py\<close>

text \<open>
  The rest of \<^verbatim>\<open>models.py\<close> is declarative: twelve Django models, their fields and the
  options of each field. The schema below transcribes those declarations: field names,
  field classes, \<^verbatim>\<open>default\<close>, \<^verbatim>\<open>choices\<close>, \<^verbatim>\<open>validators\<close>, \<^verbatim>\<open>unique\<close>,
  \<^verbatim>\<open>auto_now_add\<close> and \<^verbatim>\<open>on_delete\<close>. \<^verbatim>\<open>verbose_name\<close> and \<^verbatim>\<open>related_name\<close>, which
  only name things for display and reverse lookup, and the display labels of the
  choices are left out. The behaviour that Django attaches to a declaration
  (construction with defaults, field validation, saving under the constraints of the
  database, deletion with cascade) is written once, for any model, in the sections
  that follow.
\<close>

datatype pyval =
    PyNone
  | PyBool bool
  | PyInt int
  | PyStr string
  | PyDecimal decimal
  | PyDateTime int

datatype model =
    User | Agency | Agent | PropertyType | Location | Category | Advertisement
  | Photo | Review | FavoriteAdvertisement | Notification | Statistics

datatype on_delete = CASCADE

datatype validator = MinValueValidator int | MaxValueValidator int | MaxLengthValidator nat

datatype field_kind =
    AutoField
  | CharField nat
  | TextField
  | EmailField
  | URLField
  | BooleanField
  | IntegerField
  | PositiveIntegerField
  | DecimalField nat nat
  | DateTimeField
  | DateField
  | ForeignKey model on_delete
  | OneToOneField model on_delete

record field =
  f_name :: string
  f_kind :: field_kind
  f_default :: "pyval option"
  f_choices :: "string list option"
  f_validators :: "validator list"
  f_unique :: bool
  f_null :: bool
  f_blank :: bool
  f_auto_now_add :: bool

text \<open>A field declared with a name and a class only: every option has Django's default.\<close>

definition fld :: "string \<Rightarrow> field_kind \<Rightarrow> field" where
  "fld n k = \<lparr>f_name = n, f_kind = k, f_default = None, f_choices = None, f_validators = [],
     f_unique = False, f_null = False, f_blank = False, f_auto_now_add = False\<rparr>"

text \<open>Every model has the implicit primary key \<^verbatim>\<open>id\<close> that Django adds.\<close>

definition id_field :: field where
  "id_field = fld ''id'' AutoField"

definition STATUS_CHOICES :: "string list" where
  "STATUS_CHOICES = [''draft'', ''active'', ''sold'', ''rented'']"

text \<open>
  \<^verbatim>\<open>NOTIFICATION_TYPE_CHOICES\<close> is defined in the class body of \<^verbatim>\<open>Notification\<close>, and no
  field refers to it: \<^verbatim>\<open>notification_type\<close> is declared without \<^verbatim>\<open>choices\<close>.
\<close>

definition NOTIFICATION_TYPE_CHOICES :: "string list" where
  "NOTIFICATION_TYPE_CHOICES = [''new_ad'', ''ad_update'', ''ad_sold'', ''ad_rented'']"

text \<open>
  \<^verbatim>\<open>User\<close> extends \<^verbatim>\<open>AbstractBaseUser\<close> and \<^verbatim>\<open>PermissionsMixin\<close>; the columns they
  contribute (\<^verbatim>\<open>password\<close>, \<^verbatim>\<open>last_login\<close>, \<^verbatim>\<open>is_superuser\<close>) come first, as Django
  orders them. The two many-to-many relations of \<^verbatim>\<open>PermissionsMixin\<close> are not columns
  of the table and are absent.
\<close>

fun model_fields :: "model \<Rightarrow> field list" where
  "model_fields User =
     [id_field,
      fld ''password'' (CharField 128),
      (fld ''last_login'' DateTimeField)\<lparr>f_null := True, f_blank := True\<rparr>,
      (fld ''is_superuser'' BooleanField)\<lparr>f_default := Some (PyBool False)\<rparr>,
      fld ''name'' (CharField 100),
      fld ''surname'' (CharField 100),
      fld ''patronymic'' (CharField 100),
      fld ''phone_number'' (CharField 15),
      (fld ''email'' EmailField)\<lparr>f_unique := True\<rparr>,
      (fld ''date_joined'' DateTimeField)\<lparr>f_auto_now_add := True\<rparr>,
      (fld ''is_active'' BooleanField)\<lparr>f_default := Some (PyBool True)\<rparr>,
      (fld ''is_staff'' BooleanField)\<lparr>f_default := Some (PyBool False)\<rparr>,
      (fld ''is_agent'' BooleanField)\<lparr>f_default := Some (PyBool False)\<rparr>]"
| "model_fields Agency =
     [id_field,
      (fld ''created_at'' DateTimeField)\<lparr>f_auto_now_add := True\<rparr>,
      fld ''name'' (CharField 255),
      (fld ''agent_count'' PositiveIntegerField)\<lparr>f_default := Some (PyInt 0)\<rparr>,
      (fld ''advertisement_count'' PositiveIntegerField)\<lparr>f_default := Some (PyInt 0)\<rparr>]"
| "model_fields Agent =
     [id_field,
      fld ''agency'' (ForeignKey Agency CASCADE),
      fld ''user'' (OneToOneField User CASCADE)]"
| "model_fields PropertyType =
     [id_field,
      fld ''name'' (CharField 100),
      fld ''description'' TextField]"
| "model_fields Location =
     [id_field,
      fld ''city'' (CharField 100),
      fld ''district'' (CharField 150),
      fld ''street'' (CharField 150),
      fld ''house'' (CharField 15)]"
| "model_fields Category =
     [id_field,
      fld ''name'' (CharField 100),
      fld ''description'' TextField,
      (fld ''created_at'' DateTimeField)\<lparr>f_auto_now_add := True\<rparr>]"
| "model_fields Advertisement =
     [id_field,
      fld ''title'' (CharField 200),
      fld ''description'' TextField,
      fld ''price'' (DecimalField 20 2),
      fld ''user'' (ForeignKey User CASCADE),
      fld ''property_type'' (ForeignKey PropertyType CASCADE),
      fld ''location'' (ForeignKey Location CASCADE),
      fld ''category'' (ForeignKey Category CASCADE),
      (fld ''date_posted'' DateTimeField)\<lparr>f_auto_now_add := True\<rparr>,
      (fld ''status'' (CharField 10))
        \<lparr>f_default := Some (PyStr ''draft''), f_choices := Some STATUS_CHOICES\<rparr>]"
| "model_fields Photo =
     [id_field,
      fld ''advertisement'' (ForeignKey Advertisement CASCADE),
      fld ''image_url'' URLField,
      fld ''display_order'' IntegerField]"
| "model_fields Review =
     [id_field,
      fld ''advertisement'' (ForeignKey Advertisement CASCADE),
      fld ''user'' (ForeignKey User CASCADE),
      (fld ''rating'' IntegerField)
        \<lparr>f_validators := [MinValueValidator 0, MaxValueValidator 5]\<rparr>,
      fld ''comment'' TextField]"
| "model_fields FavoriteAdvertisement =
     [id_field,
      fld ''user'' (ForeignKey User CASCADE),
      fld ''advertisement'' (ForeignKey Advertisement CASCADE)]"
| "model_fields Notification =
     [id_field,
      fld ''user'' (ForeignKey User CASCADE),
      fld ''advertisement'' (ForeignKey Advertisement CASCADE),
      fld ''notification_type'' (CharField 50),
      (fld ''created_at'' DateTimeField)\<lparr>f_auto_now_add := True\<rparr>,
      fld ''status'' (CharField 50),
      fld ''message'' TextField]"
| "model_fields Statistics =
     [id_field,
      fld ''date'' DateField,
      fld ''user_count'' IntegerField,
      fld ''advertisement_count'' IntegerField]"

definition get_field :: "model \<Rightarrow> string \<Rightarrow> field option" where
  "get_field m n = find (\<lambda>f. f_name f = n) (model_fields m)"

section \<open>Model instances\<close>

text \<open>
  An instance is its model and its attribute values, one per field. A foreign key holds
  the primary key of the row it refers to (Django's \<^verbatim>\<open>_id\<close> attribute), as \<open>PyInt\<close>.
\<close>

record inst =
  inst_model :: model
  attrs :: "(string \<times> pyval) list"

definition attr :: "inst \<Rightarrow> string \<Rightarrow> pyval" where
  "attr r n = (case map_of (attrs r) n of Some v \<Rightarrow> v | None \<Rightarrow> PyNone)"

definition set_attr :: "inst \<Rightarrow> string \<Rightarrow> pyval \<Rightarrow> inst" where
  "set_attr r n v = r\<lparr>attrs := AList.update n v (attrs r)\<rparr>"

datatype error = ValueError string | TypeError | AttributeError | IntegrityError

text \<open>
  \<^verbatim>\<open>Field.get_default\<close>: the declared default; without one, the empty string for the
  text-valued field classes that are not nullable, and \<^verbatim>\<open>None\<close> for the others.
\<close>

fun empty_strings_allowed :: "field_kind \<Rightarrow> bool" where
  "empty_strings_allowed (CharField _) = True"
| "empty_strings_allowed TextField = True"
| "empty_strings_allowed EmailField = True"
| "empty_strings_allowed URLField = True"
| "empty_strings_allowed _ = False"

definition get_default :: "field \<Rightarrow> pyval" where
  "get_default f =
     (case f_default f of
        Some v \<Rightarrow> v
      | None \<Rightarrow> if empty_strings_allowed (f_kind f) \<and> \<not> f_null f then PyStr [] else PyNone)"

text \<open>
  \<^verbatim>\<open>Model.__init__\<close> with keyword arguments, the way \<^verbatim>\<open>self.model(email=email,
  **extra_fields)\<close> calls it: every field takes the keyword argument of its name, or its
  default; a keyword that names no field raises \<^verbatim>\<open>TypeError\<close>. (Keywords that name a
  property, such as \<^verbatim>\<open>pk\<close>, are not modelled.) A dictionary is an association list in
  which the first binding of a key counts.
\<close>

definition model_init :: "model \<Rightarrow> (string \<times> pyval) list \<Rightarrow> error + inst" where
  "model_init m kwargs =
     (if \<exists>k\<in>set (map fst kwargs). k \<notin> set (map f_name (model_fields m)) then Inl TypeError
      else Inr \<lparr>inst_model = m,
                attrs = map (\<lambda>f. (f_name f,
                                   case map_of kwargs (f_name f) of
                                     Some v \<Rightarrow> v
                                   | None \<Rightarrow> get_default f))
                            (model_fields m)\<rparr>)"

section \<open>Field validation\<close>

text \<open>
  \<^verbatim>\<open>Field.validate\<close> and \<^verbatim>\<open>Field.run_validators\<close>, which \<^verbatim>\<open>Field.clean\<close> calls in
  this order on the value that \<^verbatim>\<open>to_python\<close> returned; the value is therefore of the
  Python type of its field. \<^verbatim>\<open>Field.validate\<close> raises at its first failing check;
  \<^verbatim>\<open>run_validators\<close> skips empty values and collects the errors of all validators.
  The validators of a field are those of its class (\<^verbatim>\<open>MaxLengthValidator\<close> for a
  \<^verbatim>\<open>CharField\<close>) and the declared ones. The range that a database backend adds to an
  \<^verbatim>\<open>IntegerField\<close> (at least 32 bits) and the syntax checks of \<^verbatim>\<open>EmailField\<close> and
  \<^verbatim>\<open>URLField\<close> are not modelled.
\<close>

datatype validation_error =
  invalid_choice | null_value | blank_value | min_value | max_value | max_length

definition empty_value :: "pyval \<Rightarrow> bool" where
  "empty_value v = (v = PyNone \<or> v = PyStr [])"

definition validate :: "field \<Rightarrow> pyval \<Rightarrow> validation_error list" where
  "validate f v =
     (if f_choices f \<noteq> None \<and> \<not> empty_value v then
        (if v \<in> PyStr ` set (the (f_choices f)) then [] else [invalid_choice])
      else if v = PyNone \<and> \<not> f_null f then [null_value]
      else if \<not> f_blank f \<and> empty_value v then [blank_value]
      else [])"

text \<open>
  The length of a Python string counts code points: the bytes of its UTF-8 form that are
  not continuation bytes.
\<close>

definition py_len :: "string \<Rightarrow> nat" where
  "py_len s = length (filter (\<lambda>c. \<not> (128 \<le> (of_char c :: nat) \<and> (of_char c :: nat) < 192)) s)"

fun validator_errors :: "validator \<Rightarrow> pyval \<Rightarrow> validation_error list" where
  "validator_errors (MinValueValidator limit) (PyInt n) = (if n < limit then [min_value] else [])"
| "validator_errors (MaxValueValidator limit) (PyInt n) = (if limit < n then [max_value] else [])"
| "validator_errors (MaxLengthValidator limit) (PyStr s) =
     (if limit < py_len s then [max_length] else [])"
| "validator_errors _ _ = []"

definition field_validators :: "field \<Rightarrow> validator list" where
  "field_validators f =
     (case f_kind f of CharField n \<Rightarrow> [MaxLengthValidator n] | _ \<Rightarrow> []) @ f_validators f"

definition run_validators :: "field \<Rightarrow> pyval \<Rightarrow> validation_error list" where
  "run_validators f v =
     (if empty_value v then [] else concat (map (\<lambda>c. validator_errors c v) (field_validators f)))"

definition clean :: "field \<Rightarrow> pyval \<Rightarrow> validation_error list + pyval" where
  "clean f v =
     (case validate f v of
        [] \<Rightarrow> (case run_validators f v of [] \<Rightarrow> Inr v | es \<Rightarrow> Inl es)
      | es \<Rightarrow> Inl es)"

text \<open>The three fields whose validation the specification describes.\<close>

definition rating_field :: field where
  "rating_field = the (get_field Review ''rating'')"

definition status_field :: field where
  "status_field = the (get_field Advertisement ''status'')"

definition notification_type_field :: field where
  "notification_type_field = the (get_field Notification ''notification_type'')"

section \<open>The storage layer\<close>

text \<open>
  The database is the list of stored rows. What it enforces is what the declarations
  ask of it: primary keys, \<^verbatim>\<open>NOT NULL\<close> for every field that is not nullable,
  uniqueness for \<^verbatim>\<open>unique=True\<close> and for a \<^verbatim>\<open>OneToOneField\<close>, and the foreign-key
  constraint for \<^verbatim>\<open>ForeignKey\<close> and \<^verbatim>\<open>OneToOneField\<close>. A violated constraint is an
  \<^verbatim>\<open>IntegrityError\<close> and nothing is written. Values are stored as they are given: the
  coercions that Django applies to a value of another type (a numeric string for an
  integer key) are not modelled, and such a value satisfies no key constraint here.
\<close>

type_synonym db = "inst list"

definition pk :: "inst \<Rightarrow> pyval" where
  "pk r = attr r ''id''"

definition key :: "inst \<Rightarrow> model \<times> pyval" where
  "key r = (inst_model r, pk r)"

fun fk_target :: "field_kind \<Rightarrow> model option" where
  "fk_target (ForeignKey t _) = Some t"
| "fk_target (OneToOneField t _) = Some t"
| "fk_target _ = None"

text \<open>The references of a row: the target model and the stored key of each foreign key.\<close>

definition refs :: "inst \<Rightarrow> (model \<times> pyval) list" where
  "refs r =
     concat (map (\<lambda>f. case fk_target (f_kind f) of
                         Some t \<Rightarrow> [(t, attr r (f_name f))]
                       | None \<Rightarrow> [])
                 (model_fields (inst_model r)))"

fun is_int :: "pyval \<Rightarrow> bool" where
  "is_int (PyInt _) = True"
| "is_int _ = False"

definition resolved :: "db \<Rightarrow> model \<times> pyval \<Rightarrow> bool" where
  "resolved d ref = (is_int (snd ref) \<and> ref \<in> set (map key d))"

definition fk_ok :: "db \<Rightarrow> inst \<Rightarrow> bool" where
  "fk_ok d r = (\<forall>ref\<in>set (refs r). resolved d ref)"

definition not_null_ok :: "inst \<Rightarrow> bool" where
  "not_null_ok r =
     (\<forall>f\<in>set (model_fields (inst_model r)). f_null f \<or> attr r (f_name f) \<noteq> PyNone)"

definition is_unique :: "field \<Rightarrow> bool" where
  "is_unique f = (f_unique f \<or> (case f_kind f of OneToOneField _ _ \<Rightarrow> True | _ \<Rightarrow> False))"

definition unique_ok :: "db \<Rightarrow> inst \<Rightarrow> bool" where
  "unique_ok d r =
     (\<forall>f\<in>set (model_fields (inst_model r)).
        is_unique f \<longrightarrow>
        (\<forall>r'\<in>set d. inst_model r' = inst_model r \<and> key r' \<noteq> key r \<longrightarrow>
                     attr r' (f_name f) \<noteq> attr r (f_name f)))"

definition constraints_ok :: "db \<Rightarrow> inst \<Rightarrow> bool" where
  "constraints_ok d r = (not_null_ok r \<and> unique_ok d r \<and> fk_ok d r)"

text \<open>
  A new row without a primary key takes the next one of its table (one more than the
  largest stored). \<^verbatim>\<open>pre_save\<close> fills the \<^verbatim>\<open>auto_now_add\<close> fields with the time of the
  insertion.
\<close>

definition stored_ids :: "db \<Rightarrow> model \<Rightarrow> int list" where
  "stored_ids d m =
     concat (map (\<lambda>r. if inst_model r = m then (case pk r of PyInt i \<Rightarrow> [i] | _ \<Rightarrow> []) else []) d)"

definition fresh_id :: "db \<Rightarrow> model \<Rightarrow> int" where
  "fresh_id d m = fold max (stored_ids d m) 0 + 1"

definition pre_save :: "int \<Rightarrow> inst \<Rightarrow> inst" where
  "pre_save now r =
     fold (\<lambda>f r. if f_auto_now_add f then set_attr r (f_name f) (PyDateTime now) else r)
          (model_fields (inst_model r)) r"

definition insert_row :: "int \<Rightarrow> inst \<Rightarrow> db \<Rightarrow> error + (inst \<times> db)" where
  "insert_row now r d =
     (let r' = pre_save now r
      in if constraints_ok d r' then Inr (r', d @ [r']) else Inl IntegrityError)"

definition update_row :: "inst \<Rightarrow> db \<Rightarrow> error + (inst \<times> db)" where
  "update_row r d =
     (if constraints_ok d r then Inr (r, map (\<lambda>x. if key x = key r then r else x) d)
      else Inl IntegrityError)"

text \<open>
  \<^verbatim>\<open>Model.save\<close>: an instance without a primary key is inserted under a new one; an
  instance whose primary key is stored is updated, and inserted otherwise.
\<close>

definition save :: "int \<Rightarrow> inst \<Rightarrow> db \<Rightarrow> error + (inst \<times> db)" where
  "save now r d =
     (case pk r of
        PyNone \<Rightarrow> insert_row now (set_attr r ''id'' (PyInt (fresh_id d (inst_model r)))) d
      | PyInt i \<Rightarrow> if key r \<in> set (map key d) then update_row r d else insert_row now r d
      | _ \<Rightarrow> Inl (ValueError ''id''))"

text \<open>
  \<^verbatim>\<open>Model.delete\<close>. Every relation of the schema is declared \<^verbatim>\<open>on_delete=CASCADE\<close>, so
  Django's deletion collector gathers the row, then the rows that refer to a gathered
  row, until no further row does, and deletes them all. \<open>collect d ks\<close> is the set of
  gathered keys, starting from \<open>ks\<close>.
\<close>

definition referrers :: "db \<Rightarrow> (model \<times> pyval) list \<Rightarrow> (model \<times> pyval) list" where
  "referrers d ks =
     remdups (map key (filter (\<lambda>r. key r \<notin> set ks \<and> (\<exists>ref\<in>set (refs r). ref \<in> set ks)) d))"

function collect :: "db \<Rightarrow> (model \<times> pyval) list \<Rightarrow> (model \<times> pyval) list" where
  "collect d ks = (if referrers d ks = [] then ks else collect d (ks @ referrers d ks))"
  by pat_completeness auto
termination
proof (relation "measure (\<lambda>(d, ks). card (set (map key d) - set ks))")
  show "wf (measure (\<lambda>(d, ks). card (set (map key d) - set ks)))"
    by simp
next
  fix d :: db and ks :: "(model \<times> pyval) list"
  assume ne: "referrers d ks \<noteq> []"
  then obtain k where k: "k \<in> set (referrers d ks)"
    by (cases "referrers d ks") auto
  have sub: "set (referrers d ks) \<subseteq> set (map key d) - set ks"
    by (auto simp: referrers_def)
  have "set (map key d) - set (ks @ referrers d ks) \<subset> set (map key d) - set ks"
    using k sub by auto
  then have "card (set (map key d) - set (ks @ referrers d ks)) < card (set (map key d) - set ks)"
    by (intro psubset_card_mono) simp_all
  then show "((d, ks @ referrers d ks), (d, ks)) \<in> measure (\<lambda>(d, ks). card (set (map key d) - set ks))"
    by simp
qed

declare collect.simps [simp del]

definition delete :: "model \<Rightarrow> int \<Rightarrow> db \<Rightarrow> db" where
  "delete m i d = filter (\<lambda>r. key r \<notin> set (collect d [(m, PyInt i)])) d"

text \<open>
  The operations on the stored state: saving an instance of any model and deleting a
  row of any model. A save that fails leaves the state as it was. \<open>run\<close> performs a
  sequence of operations from the empty database; the reachable states are its values.
\<close>

datatype operation = Save int inst | Delete model int

fun apply_op :: "db \<Rightarrow> operation \<Rightarrow> db" where
  "apply_op d (Save now r) = (case save now r d of Inl _ \<Rightarrow> d | Inr (_, d') \<Rightarrow> d')"
| "apply_op d (Delete m i) = delete m i d"

definition run :: "operation list \<Rightarrow> db" where
  "run ops = foldl apply_op [] ops"

text \<open>
  A \<^verbatim>\<open>Photo\<close> or \<^verbatim>\<open>Review\<close> row is dangling when no stored \<^verbatim>\<open>Advertisement\<close> has the
  key that its \<^verbatim>\<open>advertisement\<close> field holds.
\<close>

definition of_advertisement :: "inst \<Rightarrow> bool" where
  "of_advertisement r = (inst_model r = Photo \<or> inst_model r = Review)"

definition dangling :: "db \<Rightarrow> inst \<Rightarrow> bool" where
  "dangling d r =
     (\<not> (\<exists>a\<in>set d. inst_model a = Advertisement \<and> pk a = attr r ''advertisement''))"

text \<open>The invariant of the stored state: every reference of every row is resolved.\<close>

definition all_resolved :: "db \<Rightarrow> bool" where
  "all_resolved d = (\<forall>r\<in>set d. fk_ok d r)"

section \<open>Account creation\<close>

text \<open>
  \<^verbatim>\<open>UserManager\<close> calls three things of Django: \<^verbatim>\<open>normalize_email\<close>,
  \<^verbatim>\<open>set_password\<close> (which stores what the configured password hasher returns for the
  raw password) and \<^verbatim>\<open>save\<close>. The first two are parameters of the model: any
  normalisation and any hasher.
\<close>

record auth =
  normalize :: "string \<Rightarrow> string"
  make_password :: "pyval \<Rightarrow> string"

text \<open>Python's truth value, which \<^verbatim>\<open>not email\<close> tests.\<close>

fun truthy :: "pyval \<Rightarrow> bool" where
  "truthy PyNone = False"
| "truthy (PyBool b) = b"
| "truthy (PyInt n) = (n \<noteq> 0)"
| "truthy (PyStr s) = (s \<noteq> [])"
| "truthy (PyDecimal d) = (coeff d \<noteq> 0)"
| "truthy (PyDateTime _) = True"

text \<open>\<^verbatim>\<open>normalize_email\<close> calls \<^verbatim>\<open>strip\<close> on its argument, which only a string has.\<close>

fun normalize_email :: "auth \<Rightarrow> pyval \<Rightarrow> error + pyval" where
  "normalize_email au (PyStr s) = Inr (PyStr (normalize au s))"
| "normalize_email au _ = Inl AttributeError"

definition set_password :: "auth \<Rightarrow> inst \<Rightarrow> pyval \<Rightarrow> inst" where
  "set_password au user raw = set_attr user ''password'' (PyStr (make_password au raw))"

text \<open>
  \<^verbatim>\<open>UserManager.create_user\<close>. The result is the value returned or the exception
  raised, together with the database afterwards. \<^verbatim>\<open>extra_fields\<close> is the dictionary
  that Python has bound (it has no key \<^verbatim>\<open>email\<close> or \<^verbatim>\<open>password\<close>, which are
  parameters of their own).
\<close>

definition create_user ::
  "auth \<Rightarrow> int \<Rightarrow> pyval \<Rightarrow> pyval \<Rightarrow> (string \<times> pyval) list \<Rightarrow> db \<Rightarrow> (error + inst) \<times> db" where
  "create_user au now email password extra_fields d =
     (if \<not> truthy email then (Inl (ValueError ''Email is required''), d)
      else case normalize_email au email of
        Inl e \<Rightarrow> (Inl e, d)
      | Inr email' \<Rightarrow>
          (case model_init User ((''email'', email') # extra_fields) of
             Inl e \<Rightarrow> (Inl e, d)
           | Inr user \<Rightarrow>
               (case save now (set_password au user password) d of
                  Inl e \<Rightarrow> (Inl e, d)
                | Inr (user', d') \<Rightarrow> (Inr user', d'))))"

text \<open>\<^verbatim>\<open>dict.setdefault\<close>: a key that is present keeps its value, whatever it is.\<close>

definition setdefault :: "string \<Rightarrow> pyval \<Rightarrow> (string \<times> pyval) list \<Rightarrow> (string \<times> pyval) list" where
  "setdefault k v kw = (if k \<in> set (map fst kw) then kw else kw @ [(k, v)])"

definition create_superuser ::
  "auth \<Rightarrow> int \<Rightarrow> pyval \<Rightarrow> pyval \<Rightarrow> (string \<times> pyval) list \<Rightarrow> db \<Rightarrow> (error + inst) \<times> db" where
  "create_superuser au now email password extra_fields d =
     create_user au now email password
       (setdefault ''is_superuser'' (PyBool True) (setdefault ''is_staff'' (PyBool True) extra_fields))
       d"

section \<open>Worked data\<close>

text \<open>
  Concrete inputs on which the theorems below are instantiated: an authentication
  backend with the identity normalisation and a constant hasher, and a sequence of
  operations that stores a user, a property type, a location, a category, a listing of
  that user, a photo and a review of the listing, a notification about it, a second
  listing and a photo of it, and that also tries to store a photo of a listing that
  does not exist.
\<close>

definition example_auth :: auth where
  "example_auth = \<lparr>normalize = (\<lambda>s. s), make_password = (\<lambda>raw. ''!'')\<rparr>"

definition construct :: "model \<Rightarrow> (string \<times> pyval) list \<Rightarrow> inst" where
  "construct m kwargs =
     (case model_init m kwargs of Inr r \<Rightarrow> r | Inl _ \<Rightarrow> \<lparr>inst_model = m, attrs = []\<rparr>)"

definition listing_kwargs :: "(string \<times> pyval) list" where
  "listing_kwargs =
     [(''title'', PyStr ''Flat''), (''price'', PyDecimal (Decimal 234000000 2)),
      (''user'', PyInt 1), (''property_type'', PyInt 1), (''location'', PyInt 1),
      (''category'', PyInt 1)]"

definition parent_ops :: "operation list" where
  "parent_ops =
     [Save 1 (construct User [(''email'', PyStr ''a@b.c''), (''password'', PyStr ''!'')]),
      Save 2 (construct PropertyType [(''name'', PyStr ''flat'')]),
      Save 3 (construct Location [(''city'', PyStr ''Kazan'')]),
      Save 4 (construct Category [(''name'', PyStr ''sale'')])]"

definition example_ops :: "operation list" where
  "example_ops =
     parent_ops @
     [Save 5 (construct Advertisement listing_kwargs),
      Save 6 (construct Photo [(''advertisement'', PyInt 1), (''display_order'', PyInt 0)]),
      Save 7 (construct Review [(''advertisement'', PyInt 1), (''user'', PyInt 1),
                               (''rating'', PyInt 4)]),
      Save 8 (construct Photo [(''advertisement'', PyInt 7), (''display_order'', PyInt 0)]),
      Save 9 (construct Notification [(''user'', PyInt 1), (''advertisement'', PyInt 1),
                                     (''notification_type'', PyStr ''spam''),
                                     (''status'', PyStr ''new'')]),
      Save 10 (construct Advertisement listing_kwargs),
      Save 11 (construct Photo [(''advertisement'', PyInt 2), (''display_order'', PyInt 0)])]"

lemmas price_eval = formatted_price_def dec_ge_def dec_div_pow10_def format_2f_def rescale2_def
  round_half_even_def Let_def show_nat.simps digit_char_def suffix_rub_def suffix_mln_def
  suffix_tys_def

section \<open>Properties of the price presentation\<close>

subsection \<open>The printer and the reader agree\<close>

lemma digits_table:
  "\<forall>m\<in>{..<10::nat}. digit_of (''0123456789'' ! m) = Some m \<and> ''0123456789'' ! m \<noteq> CHR ''.''"
  by code_simp

lemma digit_of_digit_char: "digit_of (digit_char n) = Some (n mod 10)"
  using digits_table by (simp add: digit_char_def)

lemma digit_char_not_point: "digit_char n \<noteq> CHR ''.''"
  using digits_table by (simp add: digit_char_def)

lemma read_int_digit: "read_int acc (digit_char n # cs) = read_int (10 * acc + n mod 10) cs"
  by (simp add: digit_char_not_point digit_of_digit_char)

lemma read_int_show_nat:
  "read_int acc (show_nat n @ cs) = read_int (acc * 10 ^ length (show_nat n) + n) cs"
proof (induction n arbitrary: acc cs rule: show_nat.induct)
  case (1 n)
  show ?case
  proof (cases "n < 10")
    case True
    then show ?thesis
      by (simp add: show_nat.simps [of n] read_int_digit mult.commute del: read_int.simps)
  next
    case False
    have eq: "show_nat n = show_nat (n div 10) @ [digit_char n]"
      using False by (simp add: show_nat.simps [of n])
    have "read_int acc (show_nat n @ cs) = read_int acc (show_nat (n div 10) @ digit_char n # cs)"
      by (simp add: eq)
    also have "\<dots> = read_int (acc * 10 ^ length (show_nat (n div 10)) + n div 10) (digit_char n # cs)"
      using 1 [OF False] by simp
    also have "\<dots> = read_int (10 * (acc * 10 ^ length (show_nat (n div 10)) + n div 10) + n mod 10) cs"
      by (rule read_int_digit)
    also have "10 * (acc * 10 ^ length (show_nat (n div 10)) + n div 10) + n mod 10
        = acc * 10 ^ length (show_nat n) + n"
      by (simp add: eq algebra_simps)
    finally show ?thesis .
  qed
qed

lemma show_nat_hd: "\<exists>c cs. show_nat n = c # cs \<and> c \<noteq> CHR ''.''"
proof (induction n rule: show_nat.induct)
  case (1 n)
  show ?case
  proof (cases "n < 10")
    case True
    then show ?thesis by (simp add: show_nat.simps [of n] digit_char_not_point)
  next
    case False
    then show ?thesis using 1 [OF False] by (auto simp add: show_nat.simps [of n])
  qed
qed

lemma read_2dp_printed:
  "read_2dp (show_nat (h div 100) @ ''.'' @ [digit_char (h div 10), digit_char h]) = Some h"
proof -
  obtain c cs where hd: "show_nat (h div 100) = c # cs" "c \<noteq> CHR ''.''"
    using show_nat_hd by blast
  have "read_2dp (show_nat (h div 100) @ ''.'' @ [digit_char (h div 10), digit_char h])
      = read_int 0 (show_nat (h div 100) @ ''.'' @ [digit_char (h div 10), digit_char h])"
    by (simp add: read_2dp_def hd)
  also have "\<dots> = read_int (h div 100) (''.'' @ [digit_char (h div 10), digit_char h])"
    by (simp only: read_int_show_nat) simp
  also have "\<dots> = Some (100 * (h div 100) + 10 * ((h div 10) mod 10) + h mod 10)"
    by (simp add: digit_of_digit_char)
  also have "100 * (h div 100) + 10 * ((h div 10) mod 10) + h mod 10 = h"
    using mod_mult2_eq [of h 10 10] div_mult_mod_eq [of h 100] by simp
  finally show ?thesis .
qed

lemma round_half_even_near:
  assumes "0 < d"
  shows "\<bar>2 * (round_half_even n d * d - n)\<bar> \<le> d"
proof -
  define q where "q = n div d"
  define r where "r = n mod d"
  have n: "n = q * d + r" by (simp add: q_def r_def)
  have r: "0 \<le> r" "r < d" using assms by (simp_all add: r_def)
  have down: "q * d - n = - r" by (simp add: n)
  have up: "(q + 1) * d - n = d - r" by (simp add: n algebra_simps)
  have "(round_half_even n d = q \<and> 2 * r \<le> d) \<or> (round_half_even n d = q + 1 \<and> d \<le> 2 * r)"
    unfolding round_half_even_def Let_def q_def [symmetric] r_def [symmetric] by auto
  then show ?thesis
  proof
    assume "round_half_even n d = q \<and> 2 * r \<le> d"
    then show ?thesis using r down by simp
  next
    assume "round_half_even n d = q + 1 \<and> d \<le> 2 * r"
    then show ?thesis using r up by simp
  qed
qed

lemma rescale2_nonneg:
  assumes "0 \<le> coeff d"
  shows "0 \<le> rescale2 d"
proof (cases "places d \<le> 2")
  case True
  then show ?thesis using assms by (simp add: rescale2_def)
next
  case False
  have "0 \<le> coeff d div 10 ^ (places d - 2)"
    using assms by (simp add: pos_imp_zdiv_nonneg_iff)
  then show ?thesis
    using False by (simp add: rescale2_def round_half_even_def Let_def)
qed

lemma rescale2_near:
  "\<bar>of_int (rescale2 d) / 100 - dec_value d\<bar> \<le> 1 / 200"
proof (cases "places d \<le> 2")
  case True
  define j where "j = 2 - places d"
  have pj: "places d + j = 2" using True by (simp add: j_def)
  have res: "rescale2 d = coeff d * 10 ^ j" using True by (simp add: rescale2_def j_def)
  have "(100::rat) = 10 ^ (places d + j)" by (simp add: pj)
  then have h: "(100::rat) = 10 ^ places d * 10 ^ j" by (simp only: power_add)
  have "of_int (rescale2 d) / 100 = (of_int (coeff d) * 10 ^ j) / (10 ^ places d * 10 ^ j :: rat)"
    by (subst h) (simp add: res)
  also have "\<dots> = dec_value d" by (simp add: dec_value_def)
  finally show ?thesis by simp
next
  case False
  define k where "k = places d - 2"
  define m :: int where "m = 10 ^ k"
  have p: "places d = k + 2" using False by (simp add: k_def)
  have m: "0 < m" by (simp add: m_def)
  have res: "rescale2 d = round_half_even (coeff d) m"
    using False by (simp add: rescale2_def k_def m_def)
  have near: "\<bar>2 * (rescale2 d * m - coeff d)\<bar> \<le> m"
    unfolding res by (rule round_half_even_near [OF m])
  have val: "dec_value d = of_int (coeff d) / (of_int m * 100)"
    by (simp add: dec_value_def p m_def power_add)
  have "of_int (rescale2 d) / 100 - dec_value d
      = of_int (2 * (rescale2 d * m - coeff d)) / (of_int m * 200 :: rat)"
    using m by (simp add: val field_simps)
  moreover have "\<bar>of_int (2 * (rescale2 d * m - coeff d)) / (of_int m * 200 :: rat)\<bar>
      \<le> of_int m / (of_int m * 200)"
  proof -
    have "\<bar>(of_int (2 * (rescale2 d * m - coeff d)) :: rat)\<bar> \<le> of_int m"
      using near by (metis of_int_abs of_int_le_iff)
    then show ?thesis
      using m by (simp add: abs_divide divide_right_mono del: of_int_mult of_int_diff)
  qed
  ultimately show ?thesis using m by simp
qed


lemma renders_append: "renders (s @ suffix) x suffix = shows_2dp s x"
  by (simp add: renders_def)

lemma dec_ge_value: "dec_ge d n = (of_int n \<le> dec_value d)"
proof -
  have "(of_int n \<le> dec_value d) = ((of_int (n * 10 ^ places d) :: rat) \<le> of_int (coeff d))"
    by (simp add: dec_value_def pos_le_divide_eq)
  also have "\<dots> = (n * 10 ^ places d \<le> coeff d)"
    by (simp only: of_int_le_iff)
  finally show ?thesis by (simp add: dec_ge_def)
qed

lemma dec_div_pow10_value: "dec_value (dec_div_pow10 d n) = dec_value d / 10 ^ n"
  by (simp add: dec_value_def dec_div_pow10_def power_add)

lemma format_2f_shows:
  assumes "0 \<le> coeff d"
  shows "shows_2dp (format_2f d) (dec_value d)"
proof -
  define h where "h = nat \<bar>rescale2 d\<bar>"
  have nn: "0 \<le> rescale2 d" using assms by (rule rescale2_nonneg)
  have h: "(of_nat h :: rat) = of_int (rescale2 d)"
    using nn by (simp add: h_def)
  have "format_2f d = show_nat (h div 100) @ ''.'' @ [digit_char (h div 10), digit_char h]"
    using assms by (simp add: format_2f_def Let_def h_def)
  then have "read_2dp (format_2f d) = Some h"
    by (simp only: read_2dp_printed)
  then show ?thesis
    using rescale2_near [of d] by (simp add: shows_2dp_def h)
qed

text \<open>
  Claim C1. For every non-negative price whose coefficient fits the arithmetic context
  (every value of the price column does), \<^verbatim>\<open>formatted_price\<close> renders: from one
  million on, the price divided by 1,000,000 with two decimal places and the "million"
  suffix; from one thousand up to one million, the price divided by 1,000 with two
  decimal places and the "thousand" suffix; below one thousand, the price itself with
  two decimal places and the suffix of the currency unit.
\<close>

theorem formatted_price_bands:
  assumes "0 \<le> coeff p" and "in_context p"
  shows "(1000000 \<le> dec_value p \<longrightarrow>
            renders (formatted_price p) (dec_value p / 1000000) suffix_mln)
       \<and> (1000 \<le> dec_value p \<and> dec_value p < 1000000 \<longrightarrow>
            renders (formatted_price p) (dec_value p / 1000) suffix_tys)
       \<and> (dec_value p < 1000 \<longrightarrow>
            renders (formatted_price p) (dec_value p) suffix_rub)"
proof -
  have six: "0 \<le> coeff (dec_div_pow10 p 6)" and three: "0 \<le> coeff (dec_div_pow10 p 3)"
    using assms(1) by (simp_all add: dec_div_pow10_def)
  have mln: "shows_2dp (format_2f (dec_div_pow10 p 6)) (dec_value p / 1000000)"
    using format_2f_shows [OF six] by (simp add: dec_div_pow10_value)
  have tys: "shows_2dp (format_2f (dec_div_pow10 p 3)) (dec_value p / 1000)"
    using format_2f_shows [OF three] by (simp add: dec_div_pow10_value)
  have rub: "shows_2dp (format_2f p) (dec_value p)"
    using assms(1) by (rule format_2f_shows)
  have ge6: "dec_ge p 1000000 = (1000000 \<le> dec_value p)"
    by (simp add: dec_ge_value)
  have ge3: "dec_ge p 1000 = (1000 \<le> dec_value p)"
    by (simp add: dec_ge_value)
  show ?thesis
    using mln tys rub by (auto simp add: formatted_price_def ge6 ge3 renders_append)
qed

theorem formatted_price_bands_witness:
  "(0 \<le> coeff (Decimal 234000000 2) \<and> in_context (Decimal 234000000 2)
    \<and> 1000000 \<le> dec_value (Decimal 234000000 2)
    \<and> renders (formatted_price (Decimal 234000000 2))
          (dec_value (Decimal 234000000 2) / 1000000) suffix_mln)
   \<and> (0 \<le> coeff (Decimal 150000 2) \<and> in_context (Decimal 150000 2)
    \<and> 1000 \<le> dec_value (Decimal 150000 2) \<and> dec_value (Decimal 150000 2) < 1000000
    \<and> renders (formatted_price (Decimal 150000 2))
          (dec_value (Decimal 150000 2) / 1000) suffix_tys)
   \<and> (0 \<le> coeff (Decimal 99900 2) \<and> in_context (Decimal 99900 2)
    \<and> dec_value (Decimal 99900 2) < 1000
    \<and> renders (formatted_price (Decimal 99900 2)) (dec_value (Decimal 99900 2)) suffix_rub)"
  using formatted_price_bands [of "Decimal 234000000 2"]
    formatted_price_bands [of "Decimal 150000 2"]
    formatted_price_bands [of "Decimal 99900 2"]
  by (simp add: in_context_def dec_value_def)

text \<open>The two scaled examples of the specification, as the texts the code returns.\<close>

lemma formatted_price_examples:
  "formatted_price (Decimal 150000 2) = ''1.50'' @ suffix_tys"
  "formatted_price (Decimal 234000000 2) = ''2.34'' @ suffix_mln"
  by (simp_all add: price_eval)

text \<open>
  Claim C2, as amended. The price 999, whether held as \<^verbatim>\<open>Decimal('999')\<close> or as the
  column value \<^verbatim>\<open>Decimal('999.00')\<close>, is below one thousand and is printed unscaled
  with two decimal places: the digits are \<open>999.00\<close>, followed by the suffix of the
  currency unit.
\<close>

theorem formatted_price_999:
  "formatted_price (Decimal 999 0) = ''999.00'' @ suffix_rub
   \<and> formatted_price (Decimal 99900 2) = ''999.00'' @ suffix_rub"
  by (simp add: price_eval)

text \<open>
  Claim C2, as the specification states it, fails: the digits returned for the price
  999 are not \<open>9.99\<close>.
\<close>

theorem formatted_price_999_counterexample:
  "formatted_price (Decimal 999 0) \<noteq> ''9.99'' @ suffix_rub
   \<and> formatted_price (Decimal 99900 2) \<noteq> ''9.99'' @ suffix_rub"
  by (simp add: price_eval)

section \<open>Properties of instances and of the storage layer\<close>

lemma attr_set_attr: "attr (set_attr r n v) n' = (if n' = n then v else attr r n')"
  by (simp add: attr_def set_attr_def update_conv')

lemma inst_model_set_attr: "inst_model (set_attr r n v) = inst_model r"
  by (simp add: set_attr_def)

lemma pre_save_fold:
  "inst_model (fold (\<lambda>f r. if f_auto_now_add f then set_attr r (f_name f) (PyDateTime now) else r) fs r)
     = inst_model r
   \<and> attr (fold (\<lambda>f r. if f_auto_now_add f then set_attr r (f_name f) (PyDateTime now) else r) fs r) n
     = (if \<exists>f\<in>set fs. f_auto_now_add f \<and> f_name f = n then PyDateTime now else attr r n)"
  by (induction fs arbitrary: r) (auto simp: attr_set_attr inst_model_set_attr)

lemma inst_model_pre_save: "inst_model (pre_save now r) = inst_model r"
  by (simp add: pre_save_def pre_save_fold)

lemma attr_pre_save:
  "attr (pre_save now r) n =
     (if \<exists>f\<in>set (model_fields (inst_model r)). f_auto_now_add f \<and> f_name f = n
      then PyDateTime now else attr r n)"
  by (simp add: pre_save_def pre_save_fold)

text \<open>What a successful save returns and stores.\<close>

lemma save_result:
  assumes "save now r d = Inr (r', d')"
  shows "(r' = r \<or> r' = pre_save now r
            \<or> r' = pre_save now (set_attr r ''id'' (PyInt (fresh_id d (inst_model r)))))
         \<and> r' \<in> set d' \<and> constraints_ok d r'
         \<and> (d' = d @ [r'] \<or> d' = map (\<lambda>x. if key x = key r' then r' else x) d \<and> key r' \<in> set (map key d))"
  using assms
  by (auto simp: save_def insert_row_def update_row_def Let_def split: pyval.splits if_splits)

lemma save_keeps_attr:
  assumes "save now r d = Inr (r', d')" and "n \<noteq> ''id''"
    and "\<not> (\<exists>f\<in>set (model_fields (inst_model r)). f_auto_now_add f \<and> f_name f = n)"
  shows "attr r' n = attr r n"
  using save_result [OF assms(1)] assms(2,3)
  by (auto simp: attr_pre_save attr_set_attr inst_model_set_attr)

lemma map_of_setdefault:
  "map_of (setdefault k v kw) k' =
     (if k' = k \<and> map_of kw k = None then Some v else map_of kw k')"
proof (cases "k \<in> set (map fst kw)")
  case True
  then have "map_of kw k \<noteq> None"
    by (simp add: map_of_eq_None_iff)
  then show ?thesis
    using True by (simp add: setdefault_def)
next
  case False
  then have none: "map_of kw k = None"
    by (simp add: map_of_eq_None_iff)
  show ?thesis
    using False none by (auto simp: setdefault_def map_add_def split: option.splits)
qed

lemma model_init_attr:
  assumes "model_init m kw = Inr r"
  shows "inst_model r = m"
    and "attrs r = map (\<lambda>f. (f_name f, case map_of kw (f_name f) of Some v \<Rightarrow> v | None \<Rightarrow> get_default f))
                     (model_fields m)"
  using assms by (auto simp: model_init_def split: if_splits)

lemma user_flag_init:
  assumes "model_init User kw = Inr r"
  shows "attr r ''is_staff'' = (case map_of kw ''is_staff'' of Some v \<Rightarrow> v | None \<Rightarrow> PyBool False)"
    and "attr r ''is_superuser'' = (case map_of kw ''is_superuser'' of Some v \<Rightarrow> v | None \<Rightarrow> PyBool False)"
  by (simp_all add: attr_def model_init_attr [OF assms] fld_def id_field_def get_default_def
      split: option.splits)

lemma advertisement_status_init:
  assumes "model_init Advertisement kw = Inr r"
  shows "attr r ''status'' = (case map_of kw ''status'' of Some v \<Rightarrow> v | None \<Rightarrow> PyStr ''draft'')"
  by (simp add: attr_def model_init_attr [OF assms] fld_def id_field_def get_default_def
      split: option.splits)

lemma user_auto_fields:
  "(\<exists>f\<in>set (model_fields User). f_auto_now_add f \<and> f_name f = n) = (n = ''date_joined'')"
  by (auto simp: fld_def id_field_def)

lemma advertisement_auto_fields:
  "(\<exists>f\<in>set (model_fields Advertisement). f_auto_now_add f \<and> f_name f = n) = (n = ''date_posted'')"
  by (auto simp: fld_def id_field_def)


section \<open>Properties of account creation\<close>

text \<open>
  Claim C3. Whatever the password and the extra fields, \<^verbatim>\<open>create_user\<close> with an absent
  (\<^verbatim>\<open>None\<close>) or empty email raises the \<^verbatim>\<open>ValueError\<close> that reports the missing email,
  and the database is the one it was called with: nothing has been written.
\<close>

theorem create_user_requires_email:
  "create_user au now PyNone password extra_fields d = (Inl (ValueError ''Email is required''), d)
   \<and> create_user au now (PyStr []) password extra_fields d
       = (Inl (ValueError ''Email is required''), d)"
  by (simp add: create_user_def)

theorem create_user_requires_email_witness:
  "create_user example_auth 7 PyNone (PyStr ''pw'') [(''name'', PyStr ''Ann'')] (run parent_ops)
     = (Inl (ValueError ''Email is required''), run parent_ops)
   \<and> create_user example_auth 7 (PyStr []) PyNone [] []
     = (Inl (ValueError ''Email is required''), [])"
  using create_user_requires_email [of example_auth 7 "PyStr ''pw''" "[(''name'', PyStr ''Ann'')]" "run parent_ops"]
    create_user_requires_email [of example_auth 7 PyNone "[]" "[]"]
  by simp

text \<open>
  The password attribute of the account that \<^verbatim>\<open>create_user\<close> returns is what the
  hasher returned for the raw password. How that text compares with the raw password is
  a property of the hasher, which is a parameter here.
\<close>

lemma create_user_stores_hash:
  assumes "create_user au now email password extra_fields d = (Inr user, d')"
  shows "attr user ''password'' = PyStr (make_password au password)"
proof -
  from assms obtain email' u where
    init: "model_init User ((''email'', email') # extra_fields) = Inr u" and
    saved: "save now (set_password au u password) d = Inr (user, d')"
    by (auto simp: create_user_def split: if_splits sum.splits prod.splits)
  have m: "inst_model (set_password au u password) = User"
    using model_init_attr(1) [OF init] by (simp add: set_password_def inst_model_set_attr)
  have "(\<exists>f\<in>set (model_fields (inst_model (set_password au u password))).
               f_auto_now_add f \<and> f_name f = ''password'') = (''password'' = ''date_joined'')"
    by (simp only: m user_auto_fields)
  then have "\<not> (\<exists>f\<in>set (model_fields (inst_model (set_password au u password))).
               f_auto_now_add f \<and> f_name f = ''password'')"
    by simp
  then have "attr user ''password'' = attr (set_password au u password) ''password''"
    using save_keeps_attr [OF saved, of "''password''"] by simp
  then show ?thesis
    by (simp add: set_password_def attr_set_attr)
qed

text \<open>
  The raw password reaches the account and the database through the hasher only: two
  raw passwords with the same hash give the same result.
\<close>

lemma create_user_password_through_hasher:
  assumes "make_password au p = make_password au q"
  shows "create_user au now email p extra_fields d = create_user au now email q extra_fields d"
  unfolding create_user_def set_password_def assms ..

text \<open>
  Claim C5. The account that \<^verbatim>\<open>create_superuser\<close> returns has \<^verbatim>\<open>is_staff\<close> and
  \<^verbatim>\<open>is_superuser\<close> true, except for a flag that the caller has supplied among the extra
  fields: that flag has the value supplied.
\<close>

theorem create_superuser_flags:
  assumes "create_superuser au now email password extra_fields d = (Inr user, d')"
  shows "attr user ''is_staff''
           = (case map_of extra_fields ''is_staff'' of Some v \<Rightarrow> v | None \<Rightarrow> PyBool True)
       \<and> attr user ''is_superuser''
           = (case map_of extra_fields ''is_superuser'' of Some v \<Rightarrow> v | None \<Rightarrow> PyBool True)"
proof -
  define kw where
    "kw = setdefault ''is_superuser'' (PyBool True) (setdefault ''is_staff'' (PyBool True) extra_fields)"
  from assms obtain email' u where
    init: "model_init User ((''email'', email') # kw) = Inr u" and
    saved: "save now (set_password au u password) d = Inr (user, d')"
    by (auto simp: create_superuser_def create_user_def kw_def
        split: if_splits sum.splits prod.splits)
  have m: "inst_model (set_password au u password) = User"
    using model_init_attr(1) [OF init] by (simp add: set_password_def inst_model_set_attr)
  have kept: "attr user n = attr u n" if "n \<in> {''is_staff'', ''is_superuser''}" for n
  proof -
    have "(\<exists>f\<in>set (model_fields (inst_model (set_password au u password))).
               f_auto_now_add f \<and> f_name f = n) = (n = ''date_joined'')"
      by (simp only: m user_auto_fields)
    moreover have "n \<noteq> ''date_joined''"
      using that by auto
    ultimately have "\<not> (\<exists>f\<in>set (model_fields (inst_model (set_password au u password))).
               f_auto_now_add f \<and> f_name f = n)"
      by simp
    moreover have "n \<noteq> ''id''"
      using that by auto
    ultimately have "attr user n = attr (set_password au u password) n"
      using save_keeps_attr [OF saved] by blast
    also have "\<dots> = attr u n"
      using that by (auto simp: set_password_def attr_set_attr)
    finally show ?thesis .
  qed
  have staff: "attr user ''is_staff'' = attr u ''is_staff''"
    and super: "attr user ''is_superuser'' = attr u ''is_superuser''"
    by (simp_all add: kept)
  have kw_staff: "map_of kw ''is_staff''
      = Some (case map_of extra_fields ''is_staff'' of Some v \<Rightarrow> v | None \<Rightarrow> PyBool True)"
    by (simp add: kw_def map_of_setdefault split: option.splits)
  have kw_super: "map_of kw ''is_superuser''
      = Some (case map_of extra_fields ''is_superuser'' of Some v \<Rightarrow> v | None \<Rightarrow> PyBool True)"
    by (simp add: kw_def map_of_setdefault split: option.splits)
  show ?thesis
    by (simp add: staff super user_flag_init [OF init] kw_staff kw_super)
qed


theorem create_superuser_flags_witness:
  "\<exists>user d'.
     create_superuser example_auth 7 (PyStr ''a@b.c'') (PyStr ''pw'') [(''is_staff'', PyBool False)] []
       = (Inr user, d')
     \<and> attr user ''is_staff'' = PyBool False \<and> attr user ''is_superuser'' = PyBool True"
proof -
  have "\<not> isl (fst (create_superuser example_auth 7 (PyStr ''a@b.c'') (PyStr ''pw'')
                       [(''is_staff'', PyBool False)] []))"
    by code_simp
  then obtain user d' where
    ev: "create_superuser example_auth 7 (PyStr ''a@b.c'') (PyStr ''pw'') [(''is_staff'', PyBool False)] []
           = (Inr user, d')"
    by (metis isl_def prod.collapse sum.collapse(2))
  show ?thesis
    using create_superuser_flags [OF ev] ev by auto
qed


section \<open>Properties of field validation\<close>

lemma rating_field_eq:
  "rating_field = (fld ''rating'' IntegerField)\<lparr>f_validators := [MinValueValidator 0, MaxValueValidator 5]\<rparr>"
  by (simp add: rating_field_def get_field_def fld_def id_field_def)

lemma status_field_eq:
  "status_field = (fld ''status'' (CharField 10))
        \<lparr>f_default := Some (PyStr ''draft''), f_choices := Some STATUS_CHOICES\<rparr>"
  by (simp add: status_field_def get_field_def fld_def id_field_def)

lemma notification_type_field_eq:
  "notification_type_field = fld ''notification_type'' (CharField 50)"
  by (simp add: notification_type_field_def get_field_def fld_def id_field_def)

text \<open>
  Claim C6. The validation of \<^verbatim>\<open>Review.rating\<close> accepts an integer exactly when it
  lies between 0 and 5, both included, and rejects it with an error otherwise.
\<close>

theorem rating_validation:
  "(clean rating_field (PyInt n) = Inr (PyInt n)) = (0 \<le> n \<and> n \<le> 5)
   \<and> (\<exists>es. es \<noteq> [] \<and> clean rating_field (PyInt n) = Inl es) = (n < 0 \<or> 5 < n)"
  by (auto simp: clean_def validate_def run_validators_def field_validators_def empty_value_def
      rating_field_eq fld_def)

theorem rating_validation_witness:
  "clean rating_field (PyInt 0) = Inr (PyInt 0) \<and> clean rating_field (PyInt 5) = Inr (PyInt 5)
   \<and> (\<exists>es. es \<noteq> [] \<and> clean rating_field (PyInt (- 1)) = Inl es)
   \<and> (\<exists>es. es \<noteq> [] \<and> clean rating_field (PyInt 6) = Inl es)"
  using rating_validation [of 0] rating_validation [of 5] rating_validation [of "- 1"]
    rating_validation [of 6]
  by simp

lemma py_len_choices: "\<forall>s\<in>set STATUS_CHOICES. py_len s \<le> 10 \<and> s \<noteq> []"
  by (simp add: STATUS_CHOICES_def py_len_def)

text \<open>
  Claim C7. The validation of \<^verbatim>\<open>Advertisement.status\<close> accepts a string exactly when it
  is one of \<^verbatim>\<open>draft\<close>, \<^verbatim>\<open>active\<close>, \<^verbatim>\<open>sold\<close> and \<^verbatim>\<open>rented\<close>, and rejects every other
  string with an error.
\<close>

theorem status_validation:
  "(clean status_field (PyStr s) = Inr (PyStr s)) = (s \<in> {''draft'', ''active'', ''sold'', ''rented''})
   \<and> (\<exists>es. es \<noteq> [] \<and> clean status_field (PyStr s) = Inl es)
       = (s \<notin> {''draft'', ''active'', ''sold'', ''rented''})"
proof -
  have set: "set STATUS_CHOICES = {''draft'', ''active'', ''sold'', ''rented''}"
    by (simp add: STATUS_CHOICES_def)
  show ?thesis
  proof (cases "s \<in> set STATUS_CHOICES")
    case True
    then have "py_len s \<le> 10" "s \<noteq> []"
      using py_len_choices by auto
    then have "clean status_field (PyStr s) = Inr (PyStr s)"
      using True
      by (simp add: clean_def validate_def run_validators_def field_validators_def
          empty_value_def status_field_eq fld_def image_iff)
    then show ?thesis using True by (simp add: set)
  next
    case False
    then have "clean status_field (PyStr s) = Inl (if s = [] then [blank_value] else [invalid_choice])"
      by (simp add: clean_def validate_def run_validators_def field_validators_def
          empty_value_def status_field_eq fld_def image_iff)
    then show ?thesis using False by (simp add: set)
  qed
qed

theorem status_validation_witness:
  "clean status_field (PyStr ''draft'') = Inr (PyStr ''draft'')
   \<and> clean status_field (PyStr ''active'') = Inr (PyStr ''active'')
   \<and> clean status_field (PyStr ''sold'') = Inr (PyStr ''sold'')
   \<and> clean status_field (PyStr ''rented'') = Inr (PyStr ''rented'')
   \<and> (\<exists>es. es \<noteq> [] \<and> clean status_field (PyStr ''archived'') = Inl es)
   \<and> (\<exists>es. es \<noteq> [] \<and> clean status_field (PyStr []) = Inl es)"
  using status_validation [of "''draft''"] status_validation [of "''active''"]
    status_validation [of "''sold''"] status_validation [of "''rented''"]
    status_validation [of "''archived''"] status_validation [of "[]"]
  by simp

text \<open>
  \<^verbatim>\<open>Notification.notification_type\<close> is a \<^verbatim>\<open>CharField\<close> without \<^verbatim>\<open>choices\<close>: its
  validation accepts every non-empty string of at most 50 characters.
\<close>

lemma notification_type_unrestricted:
  assumes "s \<noteq> []" and "py_len s \<le> 50"
  shows "clean notification_type_field (PyStr s) = Inr (PyStr s)"
  using assms
  by (simp add: clean_def validate_def run_validators_def field_validators_def
      empty_value_def notification_type_field_eq fld_def)


text \<open>
  Claim C8 does not hold of the code. The type tag \<^verbatim>\<open>spam\<close> is none of the four of
  \<^verbatim>\<open>NOTIFICATION_TYPE_CHOICES\<close>; the validation of the field accepts it, and the
  worked operations store a notification that carries it.
\<close>

theorem notification_type_accepts_any:
  "clean notification_type_field (PyStr ''spam'') = Inr (PyStr ''spam'')
   \<and> ''spam'' \<notin> set NOTIFICATION_TYPE_CHOICES
   \<and> map (\<lambda>r. attr r ''notification_type'')
        (filter (\<lambda>r. inst_model r = Notification) (run example_ops)) = [PyStr ''spam'']"
  by code_simp

section \<open>Properties of creation with defaults\<close>

lemma saved_row_stored:
  assumes "save now r d = Inr (r', d')"
  shows "r' \<in> set d'"
  using save_result [OF assms] by simp

text \<open>
  Claim C10. An \<^verbatim>\<open>Advertisement\<close> constructed without a \<^verbatim>\<open>status\<close> keyword has the
  status \<^verbatim>\<open>draft\<close>, and so has the row that saving it stores.
\<close>

theorem advertisement_default_status:
  assumes "model_init Advertisement kwargs = Inr a" and "''status'' \<notin> set (map fst kwargs)"
  shows "attr a ''status'' = PyStr ''draft''
       \<and> (\<forall>now d a' d'. save now a d = Inr (a', d') \<longrightarrow>
             a' \<in> set d' \<and> attr a' ''status'' = PyStr ''draft'')"
proof -
  have none: "map_of kwargs ''status'' = None"
    using assms(2) by (simp add: map_of_eq_None_iff)
  have initial: "attr a ''status'' = PyStr ''draft''"
    using advertisement_status_init [OF assms(1)] by (simp add: none)
  have m: "inst_model a = Advertisement"
    using model_init_attr(1) [OF assms(1)] .
  have "(\<exists>f\<in>set (model_fields (inst_model a)). f_auto_now_add f \<and> f_name f = ''status'')
          = (''status'' = ''date_posted'')"
    by (simp only: m advertisement_auto_fields)
  then have no_auto: "\<not> (\<exists>f\<in>set (model_fields (inst_model a)). f_auto_now_add f \<and> f_name f = ''status'')"
    by simp
  have "a' \<in> set d' \<and> attr a' ''status'' = PyStr ''draft''"
    if "save now a d = Inr (a', d')" for now d a' d'
    using saved_row_stored [OF that] save_keeps_attr [OF that _ no_auto] initial by simp
  then show ?thesis
    using initial by blast
qed

theorem advertisement_default_status_witness:
  "\<exists>a a' d'.
     model_init Advertisement listing_kwargs = Inr a
     \<and> ''status'' \<notin> set (map fst listing_kwargs)
     \<and> attr a ''status'' = PyStr ''draft''
     \<and> save 5 a (run parent_ops) = Inr (a', d')
     \<and> a' \<in> set d' \<and> attr a' ''status'' = PyStr ''draft''"
proof -
  have init: "model_init Advertisement listing_kwargs = Inr (construct Advertisement listing_kwargs)"
    by code_simp
  have absent: "''status'' \<notin> set (map fst listing_kwargs)"
    by (simp add: listing_kwargs_def)
  have "\<not> isl (save 5 (construct Advertisement listing_kwargs) (run parent_ops))"
    by code_simp
  then obtain a' d' where
    saved: "save 5 (construct Advertisement listing_kwargs) (run parent_ops) = Inr (a', d')"
    by (metis isl_def prod.collapse sum.collapse(2))
  show ?thesis
    using advertisement_default_status [OF init absent] init absent saved by blast
qed


section \<open>Properties of deletion\<close>

lemma referrers_empty:
  assumes "referrers d ks = []" and "r \<in> set d" and "key r \<notin> set ks" and "ref \<in> set (refs r)"
  shows "ref \<notin> set ks"
proof
  assume "ref \<in> set ks"
  then have "r \<in> set (filter (\<lambda>r. key r \<notin> set ks \<and> (\<exists>ref\<in>set (refs r). ref \<in> set ks)) d)"
    using assms(2-4) by auto
  then have "key r \<in> set (referrers d ks)"
    by (simp add: referrers_def del: set_filter)
  then show False using assms(1) by simp
qed

lemma collect_superset: "set ks \<subseteq> set (collect d ks)"
proof (induction d ks rule: collect.induct)
  case (1 d ks)
  show ?case
  proof (cases "referrers d ks = []")
    case True
    then show ?thesis by (simp add: collect.simps [of d ks])
  next
    case False
    then show ?thesis using 1 [OF False] by (simp add: collect.simps [of d ks])
  qed
qed

lemma collect_closed:
  assumes "r \<in> set d" and "key r \<notin> set (collect d ks)" and "ref \<in> set (refs r)"
  shows "ref \<notin> set (collect d ks)"
  using assms
proof (induction d ks rule: collect.induct)
  case (1 d ks)
  show ?case
  proof (cases "referrers d ks = []")
    case True
    then have eq: "collect d ks = ks" by (simp add: collect.simps [of d ks])
    show ?thesis
      using referrers_empty [OF True "1.prems"(1) _ "1.prems"(3)] "1.prems"(2) by (simp add: eq)
  next
    case False
    then have eq: "collect d ks = collect d (ks @ referrers d ks)"
      by (simp add: collect.simps [of d ks])
    show ?thesis
      using "1.IH" [OF False "1.prems"(1) _ "1.prems"(3)] "1.prems"(2) by (simp add: eq)
  qed
qed

lemma delete_subset: "set (delete m i d) \<subseteq> set d"
  by (auto simp: delete_def)

lemma delete_no_referrer:
  assumes "r \<in> set (delete m i d)" and "ref \<in> set (refs r)"
  shows "ref \<noteq> (m, PyInt i)"
proof -
  have r: "r \<in> set d" "key r \<notin> set (collect d [(m, PyInt i)])"
    using assms(1) by (auto simp: delete_def)
  have "(m, PyInt i) \<in> set (collect d [(m, PyInt i)])"
    using collect_superset [of "[(m, PyInt i)]" d] by simp
  then show ?thesis
    using collect_closed [OF r assms(2)] by auto
qed

lemma advertisement_ref:
  assumes "of_advertisement r"
  shows "(Advertisement, attr r ''advertisement'') \<in> set (refs r)"
  using assms by (auto simp: of_advertisement_def refs_def fld_def id_field_def)

lemma all_resolved_delete:
  assumes "all_resolved d"
  shows "all_resolved (delete m i d)"
  unfolding all_resolved_def fk_ok_def
proof (intro ballI)
  fix r ref
  assume r': "r \<in> set (delete m i d)" and ref: "ref \<in> set (refs r)"
  have r: "r \<in> set d" "key r \<notin> set (collect d [(m, PyInt i)])"
    using r' by (auto simp: delete_def)
  have "resolved d ref"
    using assms r(1) ref by (auto simp: all_resolved_def fk_ok_def)
  then obtain x where x: "is_int (snd ref)" "x \<in> set d" "key x = ref"
    by (auto simp: resolved_def)
  have "ref \<notin> set (collect d [(m, PyInt i)])"
    using collect_closed [OF r ref] .
  then have "x \<in> set (delete m i d)"
    using x by (simp add: delete_def)
  then show "resolved (delete m i d) ref"
    using x by (auto simp: resolved_def)
qed

lemma all_resolved_save:
  assumes "all_resolved d" and "save now r d = Inr (r', d')"
  shows "all_resolved d'"
proof -
  have ok: "fk_ok d r'" and
    shape: "d' = d @ [r'] \<or> d' = map (\<lambda>x. if key x = key r' then r' else x) d \<and> key r' \<in> set (map key d)"
    using save_result [OF assms(2)] by (auto simp: constraints_ok_def)
  have same: "map key (map (\<lambda>x. if key x = key r' then r' else x) d) = map key d"
    by (induction d) simp_all
  have keys: "set (map key d) \<subseteq> set (map key d')"
    using shape
  proof (elim disjE conjE)
    assume "d' = d @ [r']"
    then show ?thesis by auto
  next
    assume "d' = map (\<lambda>x. if key x = key r' then r' else x) d"
    then have "map key d' = map key d" by (simp only: same)
    then show ?thesis by simp
  qed
  have rows: "set d' \<subseteq> insert r' (set d)"
    using shape by auto
  show ?thesis
    unfolding all_resolved_def fk_ok_def
  proof (intro ballI)
    fix x ref
    assume "x \<in> set d'" and ref: "ref \<in> set (refs x)"
    then have "x = r' \<or> x \<in> set d" using rows by auto
    then have "resolved d ref"
      using ok assms(1) ref by (auto simp: all_resolved_def fk_ok_def)
    then show "resolved d' ref"
      using keys by (auto simp: resolved_def)
  qed
qed

lemma all_resolved_apply_op:
  assumes "all_resolved d"
  shows "all_resolved (apply_op d op)"
proof (cases op)
  case (Save now r)
  then show ?thesis
    using assms all_resolved_save [OF assms]
    by (auto split: sum.splits)
next
  case (Delete m i)
  then show ?thesis
    using all_resolved_delete [OF assms] by simp
qed

lemma all_resolved_foldl:
  "all_resolved d \<Longrightarrow> all_resolved (foldl apply_op d ops)"
  by (induction ops arbitrary: d) (simp_all add: all_resolved_apply_op)

lemma all_resolved_run: "all_resolved (run ops)"
  unfolding run_def by (rule all_resolved_foldl) (simp add: all_resolved_def)

lemma all_resolved_create_user:
  assumes "all_resolved d"
  shows "all_resolved (snd (create_user au now email password extra_fields d))"
  using assms all_resolved_save [OF assms]
  by (auto simp: create_user_def split: sum.splits prod.splits)

text \<open>
  Claim C9. After the deletion of an \<^verbatim>\<open>Advertisement\<close> no \<^verbatim>\<open>Photo\<close> and no \<^verbatim>\<open>Review\<close>
  that remains refers to it; and in no state that the operations reach from the empty
  database is the \<^verbatim>\<open>advertisement\<close> of a \<^verbatim>\<open>Photo\<close> or of a \<^verbatim>\<open>Review\<close> dangling.
\<close>

theorem cascade_no_dangling:
  "(\<forall>r\<in>set (delete Advertisement i d). of_advertisement r \<longrightarrow> attr r ''advertisement'' \<noteq> PyInt i)
   \<and> (\<forall>r\<in>set (run ops). of_advertisement r \<longrightarrow> \<not> dangling (run ops) r)"
proof (intro conjI ballI impI)
  fix r
  assume "r \<in> set (delete Advertisement i d)" and "of_advertisement r"
  then show "attr r ''advertisement'' \<noteq> PyInt i"
    using delete_no_referrer advertisement_ref by blast
next
  fix r
  assume r: "r \<in> set (run ops)" and a: "of_advertisement r"
  have "resolved (run ops) (Advertisement, attr r ''advertisement'')"
    using all_resolved_run [of ops] r advertisement_ref [OF a]
    by (auto simp: all_resolved_def fk_ok_def)
  then obtain x where "x \<in> set (run ops)" and "key x = (Advertisement, attr r ''advertisement'')"
    by (auto simp: resolved_def)
  then have "x \<in> set (run ops) \<and> inst_model x = Advertisement \<and> pk x = attr r ''advertisement''"
    by (simp add: key_def)
  then show "\<not> dangling (run ops) r"
    unfolding dangling_def by blast
qed

theorem cascade_no_dangling_witness:
  "map (\<lambda>r. (key r, attr r ''advertisement'')) (filter of_advertisement (run example_ops))
     = [((Photo, PyInt 1), PyInt 1), ((Review, PyInt 1), PyInt 1), ((Photo, PyInt 2), PyInt 2)]
   \<and> list_all (\<lambda>r. \<not> dangling (run example_ops) r) (filter of_advertisement (run example_ops))
   \<and> map (\<lambda>r. (key r, attr r ''advertisement''))
        (filter of_advertisement (delete Advertisement 1 (run example_ops)))
     = [((Photo, PyInt 2), PyInt 2)]
   \<and> list_all (\<lambda>r. attr r ''advertisement'' \<noteq> PyInt 1)
        (filter of_advertisement (delete Advertisement 1 (run example_ops)))"
proof -
  have before: "map (\<lambda>r. (key r, attr r ''advertisement'')) (filter of_advertisement (run example_ops))
     = [((Photo, PyInt 1), PyInt 1), ((Review, PyInt 1), PyInt 1), ((Photo, PyInt 2), PyInt 2)]"
    by code_simp
  have after: "map (\<lambda>r. (key r, attr r ''advertisement''))
        (filter of_advertisement (delete Advertisement 1 (run example_ops)))
     = [((Photo, PyInt 2), PyInt 2)]"
    by code_simp
  show ?thesis
    using cascade_no_dangling [of 1 "run example_ops" example_ops] before after
    by (simp add: list_all_iff)
qed

end
